theory Spec2Isabelle
  imports Complex_Main
begin

section \<open>The training harness of \<^verbatim>\<open>src/training.py\<close>\<close>

text \<open>
  The class \<^verbatim>\<open>FakeDetectorTrainer\<close> drives an epoch loop over mini batches, keeps
  the loss histories, writes and reads checkpoints and reports to a tensorboard writer.
  The model, the optimizer, the loss functions, the tensors and the writer belong to
  PyTorch; they are taken here as the record \<open>torch\<close> of operations the trainer calls,
  each returning either the exception it raises or its value. A Python float is read as
  a real number (rounding, infinities and NaN are left out), a Python int as \<open>int\<close>, a
  data loader as the list of the batches it yields, whose \<^verbatim>\<open>len\<close> is the number of
  batches. Every method takes the trainer and returns the outcome together with the
  trainer as the call leaves it, also when the call raises.
\<close>

subsection \<open>Data\<close>

type_synonym device = string

datatype error =
  AttributeError | ZeroDivisionError | RuntimeError | ValueError | FileNotFoundError
  | NotImplementedError | OtherError string

text \<open>An \<^verbatim>\<open>nn.Module\<close>: what \<^verbatim>\<open>state_dict()\<close> holds, and the training flag.\<close>

record 'p module =
  params :: 'p
  training :: bool

text \<open>A \<^verbatim>\<open>SummaryWriter\<close> is the sequence of the calls on it that returned.\<close>

datatype writer_event =
  AddScalars string "(string \<times> real option) list" int
  | Flush

record summary_writer =
  log_dir :: string
  events :: "writer_event list"

text \<open>The process-wide settings that \<^verbatim>\<open>set_seed\<close> writes.\<close>

record torch_globals =
  cudnn_deterministic :: bool
  cudnn_benchmark :: bool
  manual_seed :: "int option"
  cuda_manual_seed_all :: "int option"

text \<open>
  The attributes of the trainer. \<open>device\<close> is \<open>None\<close> as long as the attribute does not
  exist. \<open>torch_state\<close> and \<open>logger_warnings\<close> are the global settings of torch and the
  output of the module's logger, carried with the trainer.
\<close>

record ('p, 'o, 'x, 't) trainer =
  model :: "'p module"
  optimizer :: 'o
  n_labels :: int
  train_loader :: "('x \<times> 't) list option"
  val_loader :: "('x \<times> 't) list option"
  writer :: "summary_writer option"
  losses :: "real option list"
  val_losses :: "real option list"
  total_epochs :: int
  device :: "device option"
  torch_state :: torch_globals
  logger_warnings :: "string list"

text \<open>
  The operations of PyTorch that the trainer calls. \<open>forward p tr g x\<close> is \<^verbatim>\<open>model(x)\<close>
  with parameters \<open>p\<close>, training flag \<open>tr\<close> and gradient tracking \<open>g\<close>;
  \<open>backward_and_step\<close> is \<^verbatim>\<open>zero_grad\<close>, \<^verbatim>\<open>loss.backward()\<close> and \<^verbatim>\<open>optimizer.step()\<close>
  together: the new parameters and optimizer state. \<open>model_signature\<close> and
  \<open>optimizer_signature\<close> are what \<^verbatim>\<open>load_state_dict\<close> compares (names and shapes).
  \<open>add_scalars_error\<close> and \<open>flush_error\<close> are the exceptions that a call on the writer
  raises, if it raises one: a value it cannot record, a failure of the file system.
\<close>

record ('p, 'o, 'x, 't, 'y) torch =
  cuda_is_available :: bool
  module_to :: "device \<Rightarrow> 'p \<Rightarrow> error + 'p"
  tensor_x_to :: "device \<Rightarrow> 'x \<Rightarrow> error + 'x"
  tensor_y_to :: "device \<Rightarrow> 't \<Rightarrow> error + 't"
  forward :: "'p \<Rightarrow> bool \<Rightarrow> bool \<Rightarrow> 'x \<Rightarrow> error + 'y"
  train_loss_fn :: "'y \<Rightarrow> 't \<Rightarrow> error + real"
  val_loss_fn :: "'y \<Rightarrow> 't \<Rightarrow> error + real"
  backward_and_step :: "'p \<Rightarrow> 'o \<Rightarrow> 'x \<Rightarrow> 't \<Rightarrow> error + ('p \<times> 'o)"
  model_signature :: "'p \<Rightarrow> string list"
  optimizer_signature :: "'o \<Rightarrow> string list"
  add_scalars_error ::
    "summary_writer \<Rightarrow> string \<Rightarrow> (string \<times> real option) list \<Rightarrow> int \<Rightarrow> error option"
  flush_error :: "summary_writer \<Rightarrow> error option"

text \<open>A checkpoint file, and the file system as a map from paths to checkpoints.\<close>

record ('p, 'o) checkpoint =
  ck_model :: 'p
  ck_optimizer :: 'o
  ck_total_epochs :: int
  ck_losses :: "real option list"
  ck_val_losses :: "real option list"

type_synonym ('p, 'o) files = "string \<rightharpoonup> ('p, 'o) checkpoint"

subsection \<open>Construction and configuration\<close>

definition initial_globals :: torch_globals where
  "initial_globals =
     \<lparr>cudnn_deterministic = False, cudnn_benchmark = False,
      manual_seed = None, cuda_manual_seed_all = None\<rparr>"

definition init :: "'p module \<Rightarrow> 'o \<Rightarrow> ('p, 'o, 'x, 't) trainer" where
  "init m opt =
     \<lparr>model = m, optimizer = opt, n_labels = 1,
      train_loader = None, val_loader = None, writer = None,
      losses = [], val_losses = [], total_epochs = 0,
      device = None, torch_state = initial_globals, logger_warnings = []\<rparr>"

definition default_device :: "('p, 'o, 'x, 't, 'y) torch \<Rightarrow> device" where
  "default_device T = (if cuda_is_available T then ''cuda'' else ''cpu'')"

definition to ::
  "('p, 'o, 'x, 't, 'y) torch \<Rightarrow> device \<Rightarrow> ('p, 'o, 'x, 't) trainer
    \<Rightarrow> (error + unit) \<times> ('p, 'o, 'x, 't) trainer" where
  "to T dev s =
     (let s1 = s\<lparr>device := Some dev\<rparr> in
      case module_to T dev (params (model s1)) of
        Inr p \<Rightarrow> (Inr (), s1\<lparr>model := (model s1)\<lparr>params := p\<rparr>\<rparr>)
      | Inl e \<Rightarrow>
          if e = RuntimeError then
            let d = default_device T;
                s2 = s1\<lparr>device := Some d\<rparr>;
                s3 = s2\<lparr>logger_warnings := logger_warnings s2 @
                       [''Device '' @ dev @ '' not found. Using '' @ d @ '' instead.'']\<rparr>
            in case module_to T d (params (model s3)) of
                 Inr p \<Rightarrow> (Inr (), s3\<lparr>model := (model s3)\<lparr>params := p\<rparr>\<rparr>)
               | Inl e' \<Rightarrow> (Inl e', s3)
          else (Inl e, s1))"

definition set_seed :: "int \<Rightarrow> torch_globals \<Rightarrow> torch_globals" where
  "set_seed seed g =
     g\<lparr>cudnn_deterministic := True, cudnn_benchmark := False,
       manual_seed := Some seed, cuda_manual_seed_all := Some seed\<rparr>"

definition set_loaders ::
  "('x \<times> 't) list option \<Rightarrow> ('x \<times> 't) list option \<Rightarrow> ('p, 'o, 'x, 't) trainer
    \<Rightarrow> ('p, 'o, 'x, 't) trainer" where
  "set_loaders new_train new_val s = s\<lparr>train_loader := new_train, val_loader := new_val\<rparr>"

text \<open>\<open>suffix\<close> is the formatted time of the call.\<close>

definition set_tensorboard ::
  "string \<Rightarrow> string \<Rightarrow> string \<Rightarrow> ('p, 'o, 'x, 't) trainer \<Rightarrow> ('p, 'o, 'x, 't) trainer" where
  "set_tensorboard name dir suffix s =
     s\<lparr>writer := Some \<lparr>log_dir = dir @ ''/'' @ name @ ''_'' @ suffix, events = []\<rparr>\<rparr>"

subsection \<open>Step functions\<close>

definition train_step ::
  "('p, 'o, 'x, 't, 'y) torch \<Rightarrow> 'x \<Rightarrow> 't \<Rightarrow> ('p, 'o, 'x, 't) trainer
    \<Rightarrow> (error + real) \<times> ('p, 'o, 'x, 't) trainer" where
  "train_step T x y s =
     (let s1 = s\<lparr>model := (model s)\<lparr>training := True\<rparr>\<rparr> in
      case forward T (params (model s1)) True True x of
        Inl e \<Rightarrow> (Inl e, s1)
      | Inr yhat \<Rightarrow>
          (case train_loss_fn T yhat y of
             Inl e \<Rightarrow> (Inl e, s1)
           | Inr loss \<Rightarrow>
               (case backward_and_step T (params (model s1)) (optimizer s1) x y of
                  Inl e \<Rightarrow> (Inl e, s1)
                | Inr (p, opt) \<Rightarrow>
                    (Inr loss, s1\<lparr>model := (model s1)\<lparr>params := p\<rparr>, optimizer := opt\<rparr>))))"

definition val_step ::
  "('p, 'o, 'x, 't, 'y) torch \<Rightarrow> 'x \<Rightarrow> 't \<Rightarrow> ('p, 'o, 'x, 't) trainer
    \<Rightarrow> (error + real) \<times> ('p, 'o, 'x, 't) trainer" where
  "val_step T x y s =
     (let s1 = s\<lparr>model := (model s)\<lparr>training := False\<rparr>\<rparr> in
      case forward T (params (model s1)) False False x of
        Inl e \<Rightarrow> (Inl e, s1)
      | Inr yhat \<Rightarrow>
          (case val_loss_fn T yhat y of
             Inl e \<Rightarrow> (Inl e, s1)
           | Inr loss \<Rightarrow> (Inr loss, s1)))"

subsection \<open>The pass over the mini batches\<close>

text \<open>
  The \<^verbatim>\<open>for\<close> loop of \<^verbatim>\<open>_mini_batch\<close>: \<open>acc\<close> is \<^verbatim>\<open>mini_batch_loss\<close>. Reading
  \<^verbatim>\<open>self.device\<close> raises when the attribute does not exist.
\<close>

fun batches_loop ::
  "('p, 'o, 'x, 't, 'y) torch
    \<Rightarrow> ('x \<Rightarrow> 't \<Rightarrow> ('p, 'o, 'x, 't) trainer \<Rightarrow> (error + real) \<times> ('p, 'o, 'x, 't) trainer)
    \<Rightarrow> ('x \<times> 't) list \<Rightarrow> real \<Rightarrow> ('p, 'o, 'x, 't) trainer
    \<Rightarrow> (error + real) \<times> ('p, 'o, 'x, 't) trainer" where
  "batches_loop T step [] acc s = (Inr acc, s)"
| "batches_loop T step ((x, y) # bs) acc s =
     (case device s of
        None \<Rightarrow> (Inl AttributeError, s)
      | Some d \<Rightarrow>
          (case tensor_x_to T d x of
             Inl e \<Rightarrow> (Inl e, s)
           | Inr x' \<Rightarrow>
               (case tensor_y_to T d y of
                  Inl e \<Rightarrow> (Inl e, s)
                | Inr y' \<Rightarrow>
                    (case step x' y' s of
                       (Inl e, s') \<Rightarrow> (Inl e, s')
                     | (Inr l, s') \<Rightarrow> batches_loop T step bs (acc + l) s'))))"

definition mini_batch ::
  "('p, 'o, 'x, 't, 'y) torch \<Rightarrow> bool \<Rightarrow> ('p, 'o, 'x, 't) trainer
    \<Rightarrow> (error + real option) \<times> ('p, 'o, 'x, 't) trainer" where
  "mini_batch T validation s =
     (let data_loader = (if validation then val_loader s else train_loader s);
          step = (if validation then val_step T else train_step T)
      in case data_loader of
           None \<Rightarrow> (Inr None, s)
         | Some bs \<Rightarrow>
             (case batches_loop T step bs 0 s of
                (Inl e, s') \<Rightarrow> (Inl e, s')
              | (Inr mini_batch_loss, s') \<Rightarrow>
                  if length bs = 0 then (Inl ZeroDivisionError, s')
                  else (Inr (Some (mini_batch_loss / real (length bs))), s')))"

subsection \<open>Training\<close>

text \<open>Python's truth value of a loss: \<^verbatim>\<open>None\<close> and \<^verbatim>\<open>0.0\<close> are false.\<close>

fun truthy :: "real option \<Rightarrow> bool" where
  "truthy None = False"
| "truthy (Some v) = (v \<noteq> 0)"

definition add_scalars ::
  "('p, 'o, 'x, 't, 'y) torch \<Rightarrow> string \<Rightarrow> (string \<times> real option) list \<Rightarrow> int
    \<Rightarrow> summary_writer \<Rightarrow> error + summary_writer" where
  "add_scalars T tag scalars step w =
     (case add_scalars_error T w tag scalars step of
        Some e \<Rightarrow> Inl e
      | None \<Rightarrow> Inr (w\<lparr>events := events w @ [AddScalars tag scalars step]\<rparr>))"

definition flush ::
  "('p, 'o, 'x, 't, 'y) torch \<Rightarrow> summary_writer \<Rightarrow> error + summary_writer" where
  "flush T w =
     (case flush_error T w of
        Some e \<Rightarrow> Inl e
      | None \<Rightarrow> Inr (w\<lparr>events := events w @ [Flush]\<rparr>))"

text \<open>The body of the epoch loop, for one value \<open>epoch\<close> of \<^verbatim>\<open>range(n_epochs)\<close>.\<close>

definition epoch_body ::
  "('p, 'o, 'x, 't, 'y) torch \<Rightarrow> int \<Rightarrow> ('p, 'o, 'x, 't) trainer
    \<Rightarrow> (error + unit) \<times> ('p, 'o, 'x, 't) trainer" where
  "epoch_body T epoch s =
     (let s1 = s\<lparr>total_epochs := total_epochs s + 1\<rparr> in
      case mini_batch T False s1 of
        (Inl e, s2) \<Rightarrow> (Inl e, s2)
      | (Inr train_loss, s2) \<Rightarrow>
          (let s3 = s2\<lparr>losses := losses s2 @ [train_loss]\<rparr> in
           case mini_batch T True s3 of
             (Inl e, s4) \<Rightarrow> (Inl e, s4)
           | (Inr val_loss, s4) \<Rightarrow>
               (let s5 = s4\<lparr>val_losses := val_losses s4 @ [val_loss]\<rparr> in
                case writer s5 of
                  None \<Rightarrow> (Inr (), s5)
                | Some w \<Rightarrow>
                    (let scalars = [(''loss/train'', train_loss)] @
                           (if truthy val_loss then [(''loss/val'', val_loss)] else [])
                     in case add_scalars T ''loss'' scalars epoch w of
                          Inl e \<Rightarrow> (Inl e, s5)
                        | Inr w' \<Rightarrow> (Inr (), s5\<lparr>writer := Some w'\<rparr>)))))"

fun epochs_loop ::
  "('p, 'o, 'x, 't, 'y) torch \<Rightarrow> int list \<Rightarrow> ('p, 'o, 'x, 't) trainer
    \<Rightarrow> (error + unit) \<times> ('p, 'o, 'x, 't) trainer" where
  "epochs_loop T [] s = (Inr (), s)"
| "epochs_loop T (epoch # es) s =
     (case epoch_body T epoch s of
        (Inl e, s') \<Rightarrow> (Inl e, s')
      | (Inr u, s') \<Rightarrow> epochs_loop T es s')"

text \<open>\<^verbatim>\<open>range(n)\<close>: the integers from \<open>0\<close> to \<open>n - 1\<close>, none when \<open>n \<le> 0\<close>.\<close>

definition range_py :: "int \<Rightarrow> int list" where
  "range_py n = map int [0..<nat n]"

definition train ::
  "('p, 'o, 'x, 't, 'y) torch \<Rightarrow> int \<Rightarrow> int \<Rightarrow> ('p, 'o, 'x, 't) trainer
    \<Rightarrow> (error + unit) \<times> ('p, 'o, 'x, 't) trainer" where
  "train T n_epochs seed s =
     (let s0 = s\<lparr>torch_state := set_seed seed (torch_state s)\<rparr> in
      case epochs_loop T (range_py n_epochs) s0 of
        (Inl e, s') \<Rightarrow> (Inl e, s')
      | (Inr u, s') \<Rightarrow>
          (case writer s' of
             None \<Rightarrow> (Inr (), s')
           | Some w \<Rightarrow>
               (case flush T w of
                  Inl e \<Rightarrow> (Inl e, s')
                | Inr w' \<Rightarrow> (Inr (), s'\<lparr>writer := Some w'\<rparr>))))"

subsection \<open>Checkpoints\<close>

definition save_model ::
  "string \<Rightarrow> ('p, 'o, 'x, 't) trainer \<Rightarrow> ('p, 'o) files \<Rightarrow> ('p, 'o) files" where
  "save_model path s fs =
     fs(path \<mapsto> \<lparr>ck_model = params (model s), ck_optimizer = optimizer s,
                  ck_total_epochs = total_epochs s, ck_losses = losses s,
                  ck_val_losses = val_losses s\<rparr>)"

text \<open>
  \<^verbatim>\<open>load_state_dict\<close> of the model raises a \<^verbatim>\<open>RuntimeError\<close> when names or shapes
  differ, that of the optimizer a \<^verbatim>\<open>ValueError\<close>.
\<close>

definition load_model ::
  "('p, 'o, 'x, 't, 'y) torch \<Rightarrow> ('p, 'o) files \<Rightarrow> string \<Rightarrow> bool \<Rightarrow> ('p, 'o, 'x, 't) trainer
    \<Rightarrow> (error + unit) \<times> ('p, 'o, 'x, 't) trainer" where
  "load_model T fs path eval_mode s =
     (case fs path of
        None \<Rightarrow> (Inl FileNotFoundError, s)
      | Some ck \<Rightarrow>
          if model_signature T (ck_model ck) \<noteq> model_signature T (params (model s))
          then (Inl RuntimeError, s)
          else
            (let s1 = s\<lparr>model := (model s)\<lparr>params := ck_model ck\<rparr>\<rparr> in
             if optimizer_signature T (ck_optimizer ck) \<noteq> optimizer_signature T (optimizer s1)
             then (Inl ValueError, s1)
             else
               (let s2 = s1\<lparr>optimizer := ck_optimizer ck\<rparr>;
                    s3 = s2\<lparr>total_epochs := ck_total_epochs ck\<rparr>;
                    s4 = s3\<lparr>losses := ck_losses ck\<rparr>;
                    s5 = s4\<lparr>val_losses := ck_val_losses ck\<rparr>
                in (Inr (), s5\<lparr>model := (model s5)\<lparr>training := \<not> eval_mode\<rparr>\<rparr>))))"

subsection \<open>Inference\<close>

definition predict ::
  "('p, 'o, 'x, 't, 'y) torch \<Rightarrow> 'x \<Rightarrow> ('p, 'o, 'x, 't) trainer
    \<Rightarrow> (error + 'y) \<times> ('p, 'o, 'x, 't) trainer" where
  "predict T x s =
     (let s1 = s\<lparr>model := (model s)\<lparr>training := False\<rparr>\<rparr> in
      case device s1 of
        None \<Rightarrow> (Inl AttributeError, s1)
      | Some d \<Rightarrow>
          (case tensor_x_to T d x of
             Inl e \<Rightarrow> (Inl e, s1)
           | Inr x' \<Rightarrow> (forward T (params (model s1)) False False x', s1)))"

subsection \<open>Callers\<close>

text \<open>
  A caller configures a trainer and trains it, one call after the other; an exception
  ends the series. \<open>epochs_of\<close> is the number of values in \<^verbatim>\<open>range(n_epochs)\<close>.
\<close>

datatype ('x, 't) call =
  To device
  | SetLoaders "('x \<times> 't) list option" "('x \<times> 't) list option"
  | SetTensorboard string string string
  | Train int int

fun run_call ::
  "('p, 'o, 'x, 't, 'y) torch \<Rightarrow> ('x, 't) call \<Rightarrow> ('p, 'o, 'x, 't) trainer
    \<Rightarrow> (error + unit) \<times> ('p, 'o, 'x, 't) trainer" where
  "run_call T (To d) s = to T d s"
| "run_call T (SetLoaders new_train new_val) s = (Inr (), set_loaders new_train new_val s)"
| "run_call T (SetTensorboard name dir suffix) s = (Inr (), set_tensorboard name dir suffix s)"
| "run_call T (Train n_epochs seed) s = train T n_epochs seed s"

fun run_calls ::
  "('p, 'o, 'x, 't, 'y) torch \<Rightarrow> ('x, 't) call list \<Rightarrow> ('p, 'o, 'x, 't) trainer
    \<Rightarrow> (error + unit) \<times> ('p, 'o, 'x, 't) trainer" where
  "run_calls T [] s = (Inr (), s)"
| "run_calls T (c # cs) s =
     (case run_call T c s of
        (Inl e, s') \<Rightarrow> (Inl e, s')
      | (Inr u, s') \<Rightarrow> run_calls T cs s')"

fun epochs_of :: "('x, 't) call \<Rightarrow> int" where
  "epochs_of (Train n_epochs seed) = max 0 n_epochs"
| "epochs_of c = 0"

subsection \<open>Notions for the statements\<close>

text \<open>The attributes that the step functions leave alone.\<close>

definition bookkeeping ::
  "('p, 'o, 'x, 't) trainer \<Rightarrow>
    ('x \<times> 't) list option \<times> ('x \<times> 't) list option \<times> summary_writer option \<times>
    real option list \<times> real option list \<times> int \<times> device option \<times> torch_globals \<times>
    string list \<times> int" where
  "bookkeeping s =
     (train_loader s, val_loader s, writer s, losses s, val_losses s, total_epochs s,
      device s, torch_state s, logger_warnings s, n_labels s)"

text \<open>The histories and the epoch counter agree.\<close>

definition histories_agree :: "('p, 'o, 'x, 't) trainer \<Rightarrow> bool" where
  "histories_agree s =
     (length (losses s) = length (val_losses s) \<and> int (length (losses s)) = total_epochs s)"

text \<open>What a pass reads and writes besides the bookkeeping.\<close>

definition learner ::
  "('p, 'o, 'x, 't) trainer \<Rightarrow>
    'p module \<times> 'o \<times> device option \<times> ('x \<times> 't) list option \<times> ('x \<times> 't) list option" where
  "learner s = (model s, optimizer s, device s, train_loader s, val_loader s)"

text \<open>\<open>k\<close> training passes, one after the other, with nothing in between.\<close>

fun training_passes ::
  "('p, 'o, 'x, 't, 'y) torch \<Rightarrow> nat \<Rightarrow> ('p, 'o, 'x, 't) trainer \<Rightarrow> ('p, 'o, 'x, 't) trainer" where
  "training_passes T 0 s = s"
| "training_passes T (Suc k) s = training_passes T k (snd (mini_batch T False s))"

text \<open>
  The losses that a step function returns on the batches of a list, each batch moved to
  the device and taken once, in the order of the list, up to the first call that raises.
\<close>

fun step_losses ::
  "('p, 'o, 'x, 't, 'y) torch
    \<Rightarrow> ('x \<Rightarrow> 't \<Rightarrow> ('p, 'o, 'x, 't) trainer \<Rightarrow> (error + real) \<times> ('p, 'o, 'x, 't) trainer)
    \<Rightarrow> ('x \<times> 't) list \<Rightarrow> ('p, 'o, 'x, 't) trainer \<Rightarrow> real list" where
  "step_losses T step [] s = []"
| "step_losses T step ((x, y) # bs) s =
     (case device s of
        None \<Rightarrow> []
      | Some d \<Rightarrow>
          (case tensor_x_to T d x of
             Inl e \<Rightarrow> []
           | Inr x' \<Rightarrow>
               (case tensor_y_to T d y of
                  Inl e \<Rightarrow> []
                | Inr y' \<Rightarrow>
                    (case step x' y' s of
                       (Inl e, s') \<Rightarrow> []
                     | (Inr l, s') \<Rightarrow> l # step_losses T step bs s'))))"

text \<open>
  The calls of \<^verbatim>\<open>add_scalars\<close> that the epochs of a list make, given the training and
  validation losses of these epochs.
\<close>

fun emissions :: "int list \<Rightarrow> real option list \<Rightarrow> real option list \<Rightarrow> writer_event list" where
  "emissions (epoch # es) (train_loss # ls) (val_loss # vs) =
     AddScalars ''loss''
       ([(''loss/train'', train_loss)] @
        (if truthy val_loss then [(''loss/val'', val_loss)] else [])) epoch
     # emissions es ls vs"
| "emissions es ls vs = []"

subsection \<open>A small instance\<close>

text \<open>
  A model with one integer weight \<open>p\<close> that computes \<open>p * x\<close> and rejects negative
  inputs, the absolute error as both losses, an optimizer that adds one to the weight
  and counts its steps, a machine without GPU, and a writer that cannot record
  \<^verbatim>\<open>None\<close>.
\<close>

definition demo_torch :: "(int, nat, int, int, int) torch" where
  "demo_torch =
     \<lparr>cuda_is_available = False,
      module_to = (\<lambda>d p. if d = ''cpu'' then Inr p else Inl RuntimeError),
      tensor_x_to = (\<lambda>d x. Inr x),
      tensor_y_to = (\<lambda>d y. Inr y),
      forward = (\<lambda>p tr g x. if x < 0 then Inl (OtherError ''shape mismatch'') else Inr (p * x)),
      train_loss_fn = (\<lambda>yhat y. Inr (real_of_int (abs (yhat - y)))),
      val_loss_fn = (\<lambda>yhat y. Inr (real_of_int (abs (yhat - y)))),
      backward_and_step = (\<lambda>p opt x y. Inr (p + 1, Suc opt)),
      model_signature = (\<lambda>p. [''weight'']),
      optimizer_signature = (\<lambda>opt. [''lr'']),
      add_scalars_error =
        (\<lambda>w tag scalars step.
           if None \<in> set (map snd scalars) then Some NotImplementedError else None),
      flush_error = (\<lambda>w. None)\<rparr>"

definition demo_fresh :: "(int, nat, int, int) trainer" where
  "demo_fresh = init \<lparr>params = 1, training = True\<rparr> 0"

definition demo_calls :: "(int, int) call list" where
  "demo_calls =
     [To ''cpu'', SetLoaders (Some [(1, 1), (2, 3)]) (Some [(1, 2)]), Train 2 42, Train 3 42]"

text \<open>Trainers of the small instance, bound to the CPU and given data.\<close>

definition demo_on_cpu :: "(int, nat, int, int) trainer" where
  "demo_on_cpu = snd (to demo_torch ''cpu'' demo_fresh)"

definition demo_failing :: "(int, nat, int, int) trainer" where
  "demo_failing = set_loaders (Some [(1, 1), (- 1, 0)]) None demo_on_cpu"

definition demo_four :: "(int, nat, int, int) trainer" where
  "demo_four = set_loaders (Some [(1, 0), (1, 0), (1, 0), (1, 0)]) None demo_on_cpu"

definition demo_zero_val :: "(int, nat, int, int) trainer" where
  "demo_zero_val =
     set_tensorboard ''demo'' ''runs'' ''t0''
       (set_loaders (Some [(1, 0)]) (Some [(1, 2)]) demo_on_cpu)"

definition demo_empty :: "(int, nat, int, int) trainer" where
  "demo_empty = set_loaders (Some []) None demo_on_cpu"

definition demo_val_failing :: "(int, nat, int, int) trainer" where
  "demo_val_failing = set_loaders (Some [(1, 1)]) (Some [(- 1, 0)]) demo_on_cpu"

definition demo_two :: "(int, nat, int, int) trainer" where
  "demo_two = set_loaders (Some [(1, 1), (2, 3)]) None demo_on_cpu"

text \<open>An optimizer that runs out of memory at its fourth step.\<close>

definition demo_torch_budget :: "(int, nat, int, int, int) torch" where
  "demo_torch_budget =
     demo_torch\<lparr>backward_and_step :=
       (\<lambda>p opt x y. if 3 \<le> opt then Inl (OtherError ''out of memory'')
                      else Inr (p + 1, Suc opt))\<rparr>"


text \<open>A file system with no checkpoint, and a trainer after five epochs.\<close>

definition demo_files :: "(int, nat) files" where
  "demo_files = Map.empty"

definition demo_trained :: "(int, nat, int, int) trainer" where
  "demo_trained = snd (run_calls demo_torch demo_calls demo_fresh)"

text \<open>A trainer with data on which \<^verbatim>\<open>to\<close> was never called.\<close>

definition demo_no_device :: "(int, nat, int, int) trainer" where
  "demo_no_device = set_loaders (Some [(1, 1)]) None demo_fresh"


section \<open>Running the small instance\<close>

lemmas demo_simps =
  demo_torch_def demo_fresh_def init_def to_def set_loaders_def set_tensorboard_def
  train_def range_py_def epoch_body_def mini_batch_def train_step_def val_step_def
  set_seed_def default_device_def add_scalars_def flush_def Let_def upt_rec

lemmas demo_trainers =
  demo_on_cpu_def demo_failing_def demo_four_def demo_zero_val_def demo_empty_def
  demo_val_failing_def demo_two_def

section \<open>What the passes leave alone\<close>

lemma train_step_bookkeeping: "bookkeeping (snd (train_step T x y s)) = bookkeeping s"
  by (simp add: train_step_def bookkeeping_def Let_def split: sum.splits prod.splits)

lemma val_step_bookkeeping: "bookkeeping (snd (val_step T x y s)) = bookkeeping s"
  by (simp add: val_step_def bookkeeping_def Let_def split: sum.splits)

lemma batches_loop_bookkeeping:
  assumes "\<And>x y s. bookkeeping (snd (step x y s)) = bookkeeping s"
  shows "bookkeeping (snd (batches_loop T step bs acc s)) = bookkeeping s"
proof (induction bs arbitrary: acc s)
  case Nil
  show ?case by simp
next
  case (Cons b bs)
  obtain x y where b: "b = (x, y)" by (cases b)
  show ?case
  proof (cases "device s")
    case None
    then show ?thesis by (simp add: b)
  next
    case (Some d)
    show ?thesis
    proof (cases "tensor_x_to T d x")
      case (Inl e)
      then show ?thesis by (simp add: b Some)
    next
      case x': (Inr x')
      show ?thesis
      proof (cases "tensor_y_to T d y")
        case (Inl e)
        then show ?thesis by (simp add: b Some x')
      next
        case y': (Inr y')
        obtain r s' where st: "step x' y' s = (r, s')" by (cases "step x' y' s")
        have bk: "bookkeeping s' = bookkeeping s" using assms [of x' y' s] st by simp
        show ?thesis
        proof (cases r)
          case (Inl e)
          then show ?thesis by (simp add: b Some x' y' st bk)
        next
          case (Inr l)
          then show ?thesis using Cons.IH [of "acc + l" s'] by (simp add: b Some x' y' st bk)
        qed
      qed
    qed
  qed
qed

lemma mini_batch_bookkeeping: "bookkeeping (snd (mini_batch T v s)) = bookkeeping s"
proof (cases "if v then val_loader s else train_loader s")
  case None
  then show ?thesis by (simp add: mini_batch_def)
next
  case (Some bs)
  let ?step = "if v then val_step T else train_step T"
  have st: "\<And>x y s. bookkeeping (snd (?step x y s)) = bookkeeping s"
    by (simp add: train_step_bookkeeping val_step_bookkeeping)
  obtain r s' where bl: "batches_loop T ?step bs 0 s = (r, s')"
    by (cases "batches_loop T ?step bs 0 s")
  have "bookkeeping s' = bookkeeping s"
    using batches_loop_bookkeeping [of ?step T bs 0 s, OF st] bl by simp
  then show ?thesis using Some bl
    by (cases r) (simp_all add: mini_batch_def Let_def)
qed

lemma mini_batch_fields:
  assumes "mini_batch T v s = (r, s')"
  shows "train_loader s' = train_loader s" and "val_loader s' = val_loader s"
    and "writer s' = writer s" and "losses s' = losses s"
    and "val_losses s' = val_losses s" and "total_epochs s' = total_epochs s"
    and "device s' = device s" and "torch_state s' = torch_state s"
    and "logger_warnings s' = logger_warnings s"
  using mini_batch_bookkeeping [of T v s] assms by (simp_all add: bookkeeping_def)

text \<open>The ways through the body of the epoch loop.\<close>

lemma epoch_body_cases:
  obtains
    (train_raises) e s2 where
      "mini_batch T False (s\<lparr>total_epochs := total_epochs s + 1\<rparr>) = (Inl e, s2)"
      "epoch_body T epoch s = (Inl e, s2)"
  | (val_raises) train_loss s2 e s4 where
      "mini_batch T False (s\<lparr>total_epochs := total_epochs s + 1\<rparr>) = (Inr train_loss, s2)"
      "mini_batch T True (s2\<lparr>losses := losses s2 @ [train_loss]\<rparr>) = (Inl e, s4)"
      "epoch_body T epoch s = (Inl e, s4)"
  | (passes_return) train_loss s2 val_loss s4 where
      "mini_batch T False (s\<lparr>total_epochs := total_epochs s + 1\<rparr>) = (Inr train_loss, s2)"
      "mini_batch T True (s2\<lparr>losses := losses s2 @ [train_loss]\<rparr>) = (Inr val_loss, s4)"
      "epoch_body T epoch s =
         (case writer s4 of
            None \<Rightarrow> (Inr (), s4\<lparr>val_losses := val_losses s4 @ [val_loss]\<rparr>)
          | Some w \<Rightarrow>
              (case add_scalars T ''loss''
                      ([(''loss/train'', train_loss)] @
                       (if truthy val_loss then [(''loss/val'', val_loss)] else [])) epoch w of
                 Inl e \<Rightarrow> (Inl e, s4\<lparr>val_losses := val_losses s4 @ [val_loss]\<rparr>)
               | Inr w' \<Rightarrow>
                   (Inr (), s4\<lparr>val_losses := val_losses s4 @ [val_loss], writer := Some w'\<rparr>)))"
proof -
  let ?s1 = "s\<lparr>total_epochs := total_epochs s + 1\<rparr>"
  obtain r s2 where m1: "mini_batch T False ?s1 = (r, s2)" by (cases "mini_batch T False ?s1")
  show thesis
  proof (cases r)
    case (Inl e)
    then show thesis using m1 train_raises [of e s2] by (simp add: epoch_body_def)
  next
    case r: (Inr train_loss)
    let ?s3 = "s2\<lparr>losses := losses s2 @ [train_loss]\<rparr>"
    obtain r' s4 where m2: "mini_batch T True ?s3 = (r', s4)" by (cases "mini_batch T True ?s3")
    show thesis
    proof (cases r')
      case (Inl e)
      then show thesis using m1 r m2 val_raises [of train_loss s2 e s4]
        by (simp add: epoch_body_def)
    next
      case (Inr val_loss)
      then show thesis using m1 r m2 passes_return [of train_loss s2 val_loss s4]
        by (simp add: epoch_body_def Let_def split: option.splits sum.splits)
    qed
  qed
qed

text \<open>What a completed epoch does to the histories.\<close>

lemma epoch_body_completed:
  assumes "epoch_body T epoch s = (Inr u, s')"
  shows "\<exists>train_loss val_loss.
           losses s' = losses s @ [train_loss] \<and> val_losses s' = val_losses s @ [val_loss]"
    and "total_epochs s' = total_epochs s + 1"
    and "device s' = device s" and "train_loader s' = train_loader s"
    and "val_loader s' = val_loader s"
proof -
  have "(\<exists>train_loss val_loss.
           losses s' = losses s @ [train_loss] \<and> val_losses s' = val_losses s @ [val_loss])
        \<and> total_epochs s' = total_epochs s + 1
        \<and> device s' = device s \<and> train_loader s' = train_loader s
        \<and> val_loader s' = val_loader s"
  proof (cases rule: epoch_body_cases [of T s epoch])
    case (train_raises e s2)
    then show ?thesis using assms by simp
  next
    case (val_raises train_loss s2 e s4)
    then show ?thesis using assms by simp
  next
    case (passes_return train_loss s2 val_loss s4)
    note f1 = mini_batch_fields [OF passes_return(1)]
    note f2 = mini_batch_fields [OF passes_return(2)]
    from passes_return(3) assms show ?thesis
      by (auto simp: f1 f2 split: option.splits sum.splits)
  qed
  then show "\<exists>train_loss val_loss.
           losses s' = losses s @ [train_loss] \<and> val_losses s' = val_losses s @ [val_loss]"
    and "total_epochs s' = total_epochs s + 1"
    and "device s' = device s" and "train_loader s' = train_loader s"
    and "val_loader s' = val_loader s"
    by blast+
qed

section \<open>The histories track the epochs\<close>

lemma epochs_loop_completed:
  assumes "epochs_loop T es s = (Inr u, s')"
  shows "\<exists>ls vs. length ls = length es \<and> length vs = length es \<and>
           losses s' = losses s @ ls \<and> val_losses s' = val_losses s @ vs"
    and "total_epochs s' = total_epochs s + int (length es)"
    and "device s' = device s" and "train_loader s' = train_loader s"
    and "val_loader s' = val_loader s"
proof -
  have "(\<exists>ls vs. length ls = length es \<and> length vs = length es \<and>
           losses s' = losses s @ ls \<and> val_losses s' = val_losses s @ vs)
        \<and> total_epochs s' = total_epochs s + int (length es)
        \<and> device s' = device s \<and> train_loader s' = train_loader s
        \<and> val_loader s' = val_loader s"
    using assms
  proof (induction es arbitrary: s)
    case Nil
    then show ?case by simp
  next
    case (Cons epoch es)
    obtain r s1 where b: "epoch_body T epoch s = (r, s1)" by (cases "epoch_body T epoch s")
    show ?case
    proof (cases r)
      case (Inl e)
      then show ?thesis using Cons.prems b by simp
    next
      case (Inr u1)
      with b have b': "epoch_body T epoch s = (Inr u1, s1)" by simp
      from Cons.prems b' have rest: "epochs_loop T es s1 = (Inr u, s')" by simp
      from epoch_body_completed(1) [OF b'] obtain train_loss val_loss where
        h: "losses s1 = losses s @ [train_loss]" "val_losses s1 = val_losses s @ [val_loss]"
        by blast
      from Cons.IH [OF rest] obtain ls vs where
        ih: "length ls = length es" "length vs = length es"
            "losses s' = losses s1 @ ls" "val_losses s' = val_losses s1 @ vs"
            "total_epochs s' = total_epochs s1 + int (length es)"
            "device s' = device s1" "train_loader s' = train_loader s1"
            "val_loader s' = val_loader s1"
        by blast
      have "length (train_loss # ls) = length (epoch # es)"
        and "length (val_loss # vs) = length (epoch # es)"
        and "losses s' = losses s @ (train_loss # ls)"
        and "val_losses s' = val_losses s @ (val_loss # vs)"
        using ih h by simp_all
      moreover have "total_epochs s' = total_epochs s + int (length (epoch # es))"
        using ih(5) epoch_body_completed(2) [OF b'] by simp
      moreover have "device s' = device s" "train_loader s' = train_loader s"
        "val_loader s' = val_loader s"
        using ih(6-8) epoch_body_completed(3-5) [OF b'] by simp_all
      ultimately show ?thesis by blast
    qed
  qed
  then show "\<exists>ls vs. length ls = length es \<and> length vs = length es \<and>
           losses s' = losses s @ ls \<and> val_losses s' = val_losses s @ vs"
    and "total_epochs s' = total_epochs s + int (length es)"
    and "device s' = device s" and "train_loader s' = train_loader s"
    and "val_loader s' = val_loader s"
    by blast+
qed

lemma length_range_py: "length (range_py n) = nat n"
  by (simp add: range_py_def)

lemma train_completed:
  assumes "train T n seed s = (Inr u, s')"
  shows "\<exists>ls vs. length ls = nat n \<and> length vs = nat n \<and>
           losses s' = losses s @ ls \<and> val_losses s' = val_losses s @ vs"
    and "total_epochs s' = total_epochs s + max 0 n"
    and "device s' = device s" and "train_loader s' = train_loader s"
    and "val_loader s' = val_loader s"
proof -
  let ?s0 = "s\<lparr>torch_state := set_seed seed (torch_state s)\<rparr>"
  obtain r s1 where l: "epochs_loop T (range_py n) ?s0 = (r, s1)"
    by (cases "epochs_loop T (range_py n) ?s0")
  from assms l obtain u1 where r: "r = Inr u1"
    by (cases r) (simp_all add: train_def)
  note c = epochs_loop_completed [OF l [unfolded r]]
  have s': "s' = s1 \<or> (\<exists>w. s' = s1\<lparr>writer := Some w\<rparr>)"
    using assms l r by (auto simp: train_def split: option.splits sum.splits)
  from s' c(1) show "\<exists>ls vs. length ls = nat n \<and> length vs = nat n \<and>
           losses s' = losses s @ ls \<and> val_losses s' = val_losses s @ vs"
    by (auto simp: length_range_py)
  from s' c(2) show "total_epochs s' = total_epochs s + max 0 n"
    by (auto simp: length_range_py)
  from s' c(3-5) show "device s' = device s" "train_loader s' = train_loader s"
    "val_loader s' = val_loader s"
    by auto
qed

lemma run_call_histories:
  assumes "run_call T c s = (Inr u, s')" and "histories_agree s"
  shows "histories_agree s' \<and> total_epochs s' = total_epochs s + epochs_of c"
proof (cases c)
  case (To d)
  with assms show ?thesis
    by (auto simp: to_def Let_def histories_agree_def split: sum.splits if_splits)
next
  case (SetLoaders a b)
  with assms show ?thesis by (auto simp: set_loaders_def histories_agree_def)
next
  case (SetTensorboard a b c)
  with assms show ?thesis by (auto simp: set_tensorboard_def histories_agree_def)
next
  case (Train n seed)
  with assms have t: "train T n seed s = (Inr u, s')" by simp
  from train_completed(1) [OF t] obtain ls vs where
    "length ls = nat n" "length vs = nat n" "losses s' = losses s @ ls"
    "val_losses s' = val_losses s @ vs" by blast
  with train_completed(2) [OF t] assms(2) Train show ?thesis
    by (auto simp: histories_agree_def)
qed

lemma run_calls_histories:
  assumes "run_calls T cs s = (Inr u, s')" and "histories_agree s"
  shows "histories_agree s' \<and> total_epochs s' = total_epochs s + sum_list (map epochs_of cs)"
  using assms
proof (induction cs arbitrary: s)
  case Nil
  then show ?case by simp
next
  case (Cons c cs)
  obtain r s1 where c: "run_call T c s = (r, s1)" by (cases "run_call T c s")
  with Cons.prems(1) obtain u1 where r: "r = Inr u1" by (cases r) simp_all
  from c r Cons.prems(1) have rest: "run_calls T cs s1 = (Inr u, s')" by simp
  from run_call_histories [OF c [unfolded r] Cons.prems(2)]
  have h: "histories_agree s1" "total_epochs s1 = total_epochs s + epochs_of c" by simp_all
  from Cons.IH [OF rest h(1)] h(2) show ?case by simp
qed

text \<open>
  C1. A series of calls on a freshly constructed trainer, in which every call returns,
  leaves \<open>losses\<close> and \<open>val_losses\<close> as long as \<open>total_epochs\<close> counts, and
  \<open>total_epochs\<close> is the sum of the epochs of the \<^verbatim>\<open>train\<close> calls: training adds to
  the histories and never restarts them.
\<close>

theorem train_series_histories:
  assumes "fst (run_calls T cs (init m opt)) = Inr ()"
  shows "length (losses (snd (run_calls T cs (init m opt))))
           = length (val_losses (snd (run_calls T cs (init m opt))))
         \<and> int (length (losses (snd (run_calls T cs (init m opt)))))
           = total_epochs (snd (run_calls T cs (init m opt)))
         \<and> total_epochs (snd (run_calls T cs (init m opt))) = sum_list (map epochs_of cs)"
proof -
  obtain s' where r: "run_calls T cs (init m opt) = (Inr (), s')"
    using assms by (cases "run_calls T cs (init m opt)") simp
  have "histories_agree (init m opt)" by (simp add: histories_agree_def init_def)
  from run_calls_histories [OF r this]
  have "histories_agree s'" and "total_epochs s' = sum_list (map epochs_of cs)"
    by (simp_all add: init_def)
  then show ?thesis by (simp add: r histories_agree_def)
qed

lemma demo_calls_return: "fst (run_calls demo_torch demo_calls demo_fresh) = Inr ()"
  by (simp add: demo_calls_def demo_simps)

theorem train_series_histories_witness:
  "fst (run_calls demo_torch demo_calls demo_fresh) = Inr ()
   \<and> total_epochs (snd (run_calls demo_torch demo_calls demo_fresh)) = 5
   \<and> length (losses (snd (run_calls demo_torch demo_calls demo_fresh))) = 5
   \<and> length (val_losses (snd (run_calls demo_torch demo_calls demo_fresh))) = 5"
proof -
  have h: "fst (run_calls demo_torch demo_calls (init \<lparr>params = 1, training = True\<rparr> 0)) = Inr ()"
    using demo_calls_return by (simp add: demo_fresh_def)
  have "sum_list (map epochs_of demo_calls) = 5" by (simp add: demo_calls_def)
  with train_series_histories [OF h] h show ?thesis
    by (simp add: demo_fresh_def)
qed

section \<open>Passes that end at once\<close>

lemma batches_loop_no_device:
  assumes "device s = None"
  shows "batches_loop T step (b # bs) acc s = (Inl AttributeError, s)"
  using assms by (cases b) simp

lemma mini_batch_no_device:
  assumes "device s = None"
    and "(if v then val_loader s else train_loader s) = Some (b # bs)"
  shows "mini_batch T v s = (Inl AttributeError, s)"
  using assms by (simp add: mini_batch_def batches_loop_no_device)

lemma mini_batch_unbound:
  assumes "(if v then val_loader s else train_loader s) = None"
  shows "mini_batch T v s = (Inr None, s)"
  using assms by (simp add: mini_batch_def)

lemma mini_batch_no_batches:
  assumes "(if v then val_loader s else train_loader s) = Some []"
  shows "mini_batch T v s = (Inl ZeroDivisionError, s)"
  using assms by (simp add: mini_batch_def)

lemma train_first_epoch_raises:
  assumes "0 < n"
    and "fst (epoch_body T 0 (s\<lparr>torch_state := set_seed seed (torch_state s)\<rparr>)) = Inl e"
  shows "fst (train T n seed s) = Inl e"
proof -
  from assms(1) obtain es where es: "range_py n = 0 # es"
    by (cases "nat n") (simp_all add: range_py_def upt_rec)
  from assms(2) obtain s1 where
    "epoch_body T 0 (s\<lparr>torch_state := set_seed seed (torch_state s)\<rparr>) = (Inl e, s1)"
    by (cases "epoch_body T 0 (s\<lparr>torch_state := set_seed seed (torch_state s)\<rparr>)") simp
  then show ?thesis by (simp add: train_def es)
qed

text \<open>Without a device, the first batch that a pass takes ends the epoch.\<close>

lemma epoch_body_no_device:
  assumes "device s = None"
    and "(\<exists>b bs. train_loader s = Some (b # bs))
         \<or> (train_loader s = None \<and> (\<exists>b bs. val_loader s = Some (b # bs)))"
  shows "fst (epoch_body T epoch s) = Inl AttributeError"
proof -
  let ?s1 = "s\<lparr>total_epochs := total_epochs s + 1\<rparr>"
  let ?s3 = "?s1\<lparr>losses := losses ?s1 @ [None]\<rparr>"
  from assms(2) show ?thesis
  proof
    assume "\<exists>b bs. train_loader s = Some (b # bs)"
    then obtain b bs where "train_loader s = Some (b # bs)" by blast
    then have "mini_batch T False ?s1 = (Inl AttributeError, ?s1)"
      using assms(1) by (simp add: mini_batch_no_device)
    then show ?thesis by (simp add: epoch_body_def)
  next
    assume "train_loader s = None \<and> (\<exists>b bs. val_loader s = Some (b # bs))"
    then obtain b bs where t: "train_loader s = None" and v: "val_loader s = Some (b # bs)"
      by blast
    have m1: "mini_batch T False ?s1 = (Inr None, ?s1)"
      using t by (simp add: mini_batch_unbound)
    have "mini_batch T True ?s3 = (Inl AttributeError, ?s3)"
      using v assms(1) by (simp add: mini_batch_no_device)
    then show ?thesis using m1 by (simp add: epoch_body_def)
  qed
qed

lemma train_no_device:
  assumes "device s = None" and "0 < n"
    and "(\<exists>b bs. train_loader s = Some (b # bs))
         \<or> (train_loader s = None \<and> (\<exists>b bs. val_loader s = Some (b # bs)))"
  shows "fst (train T n seed s) = Inl AttributeError"
proof -
  let ?s0 = "s\<lparr>torch_state := set_seed seed (torch_state s)\<rparr>"
  have "fst (epoch_body T 0 ?s0) = Inl AttributeError"
    using assms(1,3) by (intro epoch_body_no_device) simp_all
  from train_first_epoch_raises [OF assms(2) this] show ?thesis .
qed

section \<open>An exception in the middle of an epoch\<close>

lemma epochs_loop_append:
  "epochs_loop T (xs @ ys) s =
     (case epochs_loop T xs s of
        (Inl e, s') \<Rightarrow> (Inl e, s')
      | (Inr u, s') \<Rightarrow> epochs_loop T ys s')"
  by (induction xs arbitrary: s) (simp_all split: prod.splits sum.splits)

lemma range_py_split:
  assumes "k < nat n"
  shows "range_py n = take k (range_py n) @ int k # drop (Suc k) (range_py n)"
proof -
  have "k < length (range_py n)" using assms by (simp add: length_range_py)
  from id_take_nth_drop [OF this] have
    "range_py n = take k (range_py n) @ range_py n ! k # drop (Suc k) (range_py n)" .
  moreover have "range_py n ! k = int k" using assms by (simp add: range_py_def)
  ultimately show ?thesis by simp
qed

text \<open>An epoch that raises after \<open>k\<close> completed epochs ends the \<^verbatim>\<open>train\<close> call.\<close>

lemma train_epoch_raises:
  assumes "k < nat n"
    and "epochs_loop T (take k (range_py n))
           (s\<lparr>torch_state := set_seed seed (torch_state s)\<rparr>) = (Inr (), sk)"
    and "epoch_body T (int k) sk = (Inl e, s')"
  shows "train T n seed s = (Inl e, s')"
proof -
  let ?s0 = "s\<lparr>torch_state := set_seed seed (torch_state s)\<rparr>"
  have "epochs_loop T (take k (range_py n) @ int k # drop (Suc k) (range_py n)) ?s0
          = (Inl e, s')"
    using assms(2,3) by (simp add: epochs_loop_append)
  then have "epochs_loop T (range_py n) ?s0 = (Inl e, s')"
    using range_py_split [OF assms(1)] by simp
  then show ?thesis by (simp add: train_def)
qed

lemma epoch_body_train_pass_raises:
  assumes "mini_batch T False (s\<lparr>total_epochs := total_epochs s + 1\<rparr>) = (Inl e, s2)"
  shows "epoch_body T epoch s = (Inl e, s2)"
  using assms by (simp add: epoch_body_def)

lemma epoch_body_val_pass_raises:
  assumes "mini_batch T False (s\<lparr>total_epochs := total_epochs s + 1\<rparr>) = (Inr train_loss, s2)"
    and "mini_batch T True (s2\<lparr>losses := losses s2 @ [train_loss]\<rparr>) = (Inl e, s4)"
  shows "epoch_body T epoch s = (Inl e, s4)"
  using assms by (simp add: epoch_body_def)

text \<open>
  C3, as the claim states it, fails: the second batch makes the model raise in the first
  epoch, no epoch was completed and both histories are empty, but \<open>total_epochs\<close> is 1.
\<close>

theorem train_raised_counts_failed_epoch:
  "fst (train demo_torch 1 42 demo_failing) = Inl (OtherError ''shape mismatch'')
   \<and> losses (snd (train demo_torch 1 42 demo_failing)) = []
   \<and> val_losses (snd (train demo_torch 1 42 demo_failing)) = []
   \<and> total_epochs (snd (train demo_torch 1 42 demo_failing)) = 1"
  by (simp add: demo_trainers demo_simps)

text \<open>
  C3, amended. Let \<open>k\<close> epochs of a \<^verbatim>\<open>train\<close> call have completed, leaving the trainer
  \<open>sk\<close>: both histories have gained \<open>k\<close> entries and \<open>total_epochs\<close> has gained \<open>k\<close>. When
  an exception then comes out of the training pass of the next epoch (out of its step
  function, or of the pass around it), \<^verbatim>\<open>train\<close> raises it, with both histories as the
  completed epochs left them and \<open>total_epochs\<close> one more, the failed epoch counted. When
  it comes out of the validation pass, \<^verbatim>\<open>train\<close> raises it, with \<open>val_losses\<close> as the
  completed epochs left it, \<open>losses\<close> with the training loss of the failed epoch added,
  and \<open>total_epochs\<close> one more.
\<close>

theorem train_raised_histories:
  assumes "k < nat n"
    and "epochs_loop T (take k (range_py n))
           (s\<lparr>torch_state := set_seed seed (torch_state s)\<rparr>) = (Inr (), sk)"
  shows "(\<exists>ls vs. length ls = k \<and> length vs = k
            \<and> losses sk = losses s @ ls \<and> val_losses sk = val_losses s @ vs)
     \<and> total_epochs sk = total_epochs s + int k
     \<and> (mini_batch T False (sk\<lparr>total_epochs := total_epochs sk + 1\<rparr>) = (Inl e, s2)
        \<longrightarrow> train T n seed s = (Inl e, s2)
          \<and> losses s2 = losses sk \<and> val_losses s2 = val_losses sk
          \<and> total_epochs s2 = total_epochs sk + 1)
     \<and> (mini_batch T False (sk\<lparr>total_epochs := total_epochs sk + 1\<rparr>) = (Inr train_loss, s2)
        \<and> mini_batch T True (s2\<lparr>losses := losses s2 @ [train_loss]\<rparr>) = (Inl e, s4)
        \<longrightarrow> train T n seed s = (Inl e, s4)
          \<and> losses s4 = losses sk @ [train_loss] \<and> val_losses s4 = val_losses sk
          \<and> total_epochs s4 = total_epochs sk + 1)"
proof -
  let ?s0 = "s\<lparr>torch_state := set_seed seed (torch_state s)\<rparr>"
  let ?sk1 = "sk\<lparr>total_epochs := total_epochs sk + 1\<rparr>"
  have len: "length (take k (range_py n)) = k"
    using assms(1) by (simp add: length_range_py)
  from epochs_loop_completed(1) [OF assms(2)] len
  have a: "\<exists>ls vs. length ls = k \<and> length vs = k
            \<and> losses sk = losses s @ ls \<and> val_losses sk = val_losses s @ vs"
    by simp
  from epochs_loop_completed(2) [OF assms(2)] len
  have b: "total_epochs sk = total_epochs s + int k" by simp
  have c: "train T n seed s = (Inl e, s2)
          \<and> losses s2 = losses sk \<and> val_losses s2 = val_losses sk
          \<and> total_epochs s2 = total_epochs sk + 1"
    if m: "mini_batch T False ?sk1 = (Inl e, s2)"
  proof -
    from train_epoch_raises [OF assms epoch_body_train_pass_raises [OF m]]
    have "train T n seed s = (Inl e, s2)" .
    then show ?thesis using mini_batch_fields(4-6) [OF m] by simp
  qed
  have d: "train T n seed s = (Inl e, s4)
          \<and> losses s4 = losses sk @ [train_loss] \<and> val_losses s4 = val_losses sk
          \<and> total_epochs s4 = total_epochs sk + 1"
    if m1: "mini_batch T False ?sk1 = (Inr train_loss, s2)"
      and m2: "mini_batch T True (s2\<lparr>losses := losses s2 @ [train_loss]\<rparr>) = (Inl e, s4)"
  proof -
    from train_epoch_raises [OF assms epoch_body_val_pass_raises [OF m1 m2]]
    have "train T n seed s = (Inl e, s4)" .
    then show ?thesis
      using mini_batch_fields(4-6) [OF m1] mini_batch_fields(4-6) [OF m2] by simp
  qed
  from a b c d show ?thesis by blast
qed

theorem train_raised_histories_witness:
  "(1::nat) < nat 2
   \<and> fst (epochs_loop demo_torch_budget (take 1 (range_py 2))
            (demo_two\<lparr>torch_state := set_seed 42 (torch_state demo_two)\<rparr>)) = Inr ()
   \<and> fst (train demo_torch_budget 2 42 demo_two) = Inl (OtherError ''out of memory'')
   \<and> losses (snd (train demo_torch_budget 2 42 demo_two)) = [Some (1 / 2)]
   \<and> val_losses (snd (train demo_torch_budget 2 42 demo_two)) = [None]
   \<and> total_epochs (snd (train demo_torch_budget 2 42 demo_two)) = 2
   \<and> (0::nat) < nat 1
   \<and> fst (train demo_torch 1 42 demo_val_failing) = Inl (OtherError ''shape mismatch'')
   \<and> losses (snd (train demo_torch 1 42 demo_val_failing)) = [Some 0]
   \<and> val_losses (snd (train demo_torch 1 42 demo_val_failing)) = []
   \<and> total_epochs (snd (train demo_torch 1 42 demo_val_failing)) = 1"
proof -
  let ?s0 = "demo_two\<lparr>torch_state := set_seed 42 (torch_state demo_two)\<rparr>"
  let ?sk = "snd (epochs_loop demo_torch_budget (take 1 (range_py 2)) ?s0)"
  let ?s2 = "snd (mini_batch demo_torch_budget False (?sk\<lparr>total_epochs := total_epochs ?sk + 1\<rparr>))"
  have h1: "(1::nat) < nat 2" by simp
  have f: "fst (epochs_loop demo_torch_budget (take 1 (range_py 2)) ?s0) = Inr ()"
    by (simp add: demo_torch_budget_def demo_trainers demo_simps)
  then have h2: "epochs_loop demo_torch_budget (take 1 (range_py 2)) ?s0 = (Inr (), ?sk)"
    by (metis prod.collapse)
  have sk: "losses ?sk = [Some (1 / 2)]" "val_losses ?sk = [None]" "total_epochs ?sk = 1"
    by (simp_all add: demo_torch_budget_def demo_trainers demo_simps)
  have "fst (mini_batch demo_torch_budget False (?sk\<lparr>total_epochs := total_epochs ?sk + 1\<rparr>))
          = Inl (OtherError ''out of memory'')"
    by (simp add: demo_torch_budget_def demo_trainers demo_simps)
  then have m: "mini_batch demo_torch_budget False (?sk\<lparr>total_epochs := total_epochs ?sk + 1\<rparr>)
          = (Inl (OtherError ''out of memory''), ?s2)"
    by (metis prod.collapse)
  from train_raised_histories [OF h1 h2, THEN conjunct2, THEN conjunct2, THEN conjunct1,
      THEN mp, OF m] sk
  have a: "fst (train demo_torch_budget 2 42 demo_two) = Inl (OtherError ''out of memory'')
     \<and> losses (snd (train demo_torch_budget 2 42 demo_two)) = [Some (1 / 2)]
     \<and> val_losses (snd (train demo_torch_budget 2 42 demo_two)) = [None]
     \<and> total_epochs (snd (train demo_torch_budget 2 42 demo_two)) = 2"
    by simp
  let ?t0 = "demo_val_failing\<lparr>torch_state := set_seed 42 (torch_state demo_val_failing)\<rparr>"
  let ?t2 = "snd (mini_batch demo_torch False (?t0\<lparr>total_epochs := total_epochs ?t0 + 1\<rparr>))"
  let ?t4 = "snd (mini_batch demo_torch True (?t2\<lparr>losses := losses ?t2 @ [Some 0]\<rparr>))"
  have g1: "(0::nat) < nat 1" by simp
  have g2: "epochs_loop demo_torch (take 0 (range_py 1)) ?t0 = (Inr (), ?t0)" by simp
  have "fst (mini_batch demo_torch False (?t0\<lparr>total_epochs := total_epochs ?t0 + 1\<rparr>))
          = Inr (Some 0)"
    by (simp add: demo_trainers demo_simps)
  then have m1: "mini_batch demo_torch False (?t0\<lparr>total_epochs := total_epochs ?t0 + 1\<rparr>)
          = (Inr (Some 0), ?t2)"
    by (metis prod.collapse)
  have "fst (mini_batch demo_torch True (?t2\<lparr>losses := losses ?t2 @ [Some 0]\<rparr>))
          = Inl (OtherError ''shape mismatch'')"
    by (simp add: demo_trainers demo_simps)
  then have m2: "mini_batch demo_torch True (?t2\<lparr>losses := losses ?t2 @ [Some 0]\<rparr>)
          = (Inl (OtherError ''shape mismatch''), ?t4)"
    by (metis prod.collapse)
  have t0: "losses ?t0 = []" "val_losses ?t0 = []" "total_epochs ?t0 = 0"
    by (simp_all add: demo_trainers demo_simps)
  from train_raised_histories [OF g1 g2, THEN conjunct2, THEN conjunct2, THEN conjunct2,
      THEN mp, OF conjI [OF m1 m2]] t0
  have b: "fst (train demo_torch 1 42 demo_val_failing) = Inl (OtherError ''shape mismatch'')
     \<and> losses (snd (train demo_torch 1 42 demo_val_failing)) = [Some 0]
     \<and> val_losses (snd (train demo_torch 1 42 demo_val_failing)) = []
     \<and> total_epochs (snd (train demo_torch 1 42 demo_val_failing)) = 1"
    by simp
  from h1 f a g1 b show ?thesis by blast
qed

section \<open>An empty training data source\<close>

text \<open>
  C9. A bound training data source that yields no batch makes \<^verbatim>\<open>_mini_batch\<close>, and
  with it every \<^verbatim>\<open>train\<close> call of at least one epoch, raise \<^verbatim>\<open>ZeroDivisionError\<close>: the
  accumulated loss is divided by the number of batches, which is zero.
\<close>

theorem empty_train_loader_divides_by_zero:
  assumes "train_loader s = Some []"
  shows "fst (mini_batch T False s) = Inl ZeroDivisionError
         \<and> (0 < n \<longrightarrow> fst (train T n seed s) = Inl ZeroDivisionError)"
proof -
  have "fst (train T n seed s) = Inl ZeroDivisionError" if "0 < n"
  proof -
    from that obtain es where es: "range_py n = 0 # es"
      by (cases "nat n") (simp_all add: range_py_def upt_rec)
    let ?s0 = "s\<lparr>torch_state := set_seed seed (torch_state s)\<rparr>"
    let ?s1 = "?s0\<lparr>total_epochs := total_epochs ?s0 + 1\<rparr>"
    have "mini_batch T False ?s1 = (Inl ZeroDivisionError, ?s1)"
      using assms by (simp add: mini_batch_no_batches)
    then have "epoch_body T 0 ?s0 = (Inl ZeroDivisionError, ?s1)"
      by (simp add: epoch_body_def)
    then show ?thesis by (simp add: train_def es)
  qed
  then show ?thesis using assms by (simp add: mini_batch_no_batches)
qed

theorem empty_train_loader_divides_by_zero_witness:
  "train_loader demo_empty = Some []
   \<and> fst (mini_batch demo_torch False demo_empty) = Inl ZeroDivisionError
   \<and> fst (train demo_torch 1 42 demo_empty) = Inl ZeroDivisionError"
proof -
  have h: "train_loader demo_empty = Some []"
    by (simp add: demo_trainers demo_simps)
  from empty_train_loader_divides_by_zero [OF h, of demo_torch 1 42] h show ?thesis by simp
qed

section \<open>Inference\<close>

text \<open>
  C8. \<^verbatim>\<open>predict\<close> changes nothing but the mode of the model, which it sets to
  evaluation, also when it raises and also after any \<^verbatim>\<open>train\<close> call; with the input
  moved to the bound device it returns what the forward pass returns, computed in
  evaluation mode without gradient tracking, as it is.
\<close>

theorem predict_eval_forward:
  "snd (predict T x s) = s\<lparr>model := (model s)\<lparr>training := False\<rparr>\<rparr>
   \<and> training (model (snd (predict T x s))) = False
   \<and> training (model (snd (predict T x (snd (train T n seed s))))) = False
   \<and> (device s = Some d \<and> tensor_x_to T d x = Inr x'
        \<longrightarrow> fst (predict T x s) = forward T (params (model s)) False False x')"
  by (simp add: predict_def Let_def split: option.splits sum.splits)

theorem predict_eval_forward_witness:
  "device demo_on_cpu = Some ''cpu'' \<and> tensor_x_to demo_torch ''cpu'' 3 = Inr 3
   \<and> fst (predict demo_torch 3 demo_on_cpu) = Inr 3
   \<and> training (model demo_on_cpu) = True
   \<and> training (model (snd (predict demo_torch 3 demo_on_cpu))) = False"
proof -
  have h: "device demo_on_cpu = Some ''cpu'' \<and> tensor_x_to demo_torch ''cpu'' 3 = Inr 3"
    by (simp add: demo_trainers demo_simps)
  have p: "params (model demo_on_cpu) = 1" "training (model demo_on_cpu) = True"
    by (simp_all add: demo_trainers demo_simps)
  have f: "forward demo_torch 1 False False 3 = Inr 3" by (simp add: demo_torch_def)
  from predict_eval_forward [of demo_torch 3 demo_on_cpu 0 0 "''cpu''" 3] h p f
  show ?thesis by simp
qed

section \<open>Binding the device\<close>




section \<open>The device binding\<close>

lemma epoch_body_device: "device (snd (epoch_body T epoch s)) = device s"
proof (cases rule: epoch_body_cases [of T s epoch])
  case (train_raises e s2)
  from mini_batch_fields(7) [OF train_raises(1)] train_raises(2) show ?thesis by simp
next
  case (val_raises train_loss s2 e s4)
  from mini_batch_fields(7) [OF val_raises(1)] mini_batch_fields(7) [OF val_raises(2)]
    val_raises(3)
  show ?thesis by simp
next
  case (passes_return train_loss s2 val_loss s4)
  from mini_batch_fields(7) [OF passes_return(1)] mini_batch_fields(7) [OF passes_return(2)]
    passes_return(3)
  show ?thesis by (simp split: option.splits sum.splits)
qed

lemma epochs_loop_device: "device (snd (epochs_loop T es s)) = device s"
proof (induction es arbitrary: s)
  case Nil
  show ?case by simp
next
  case (Cons epoch es)
  obtain r s1 where b: "epoch_body T epoch s = (r, s1)" by (cases "epoch_body T epoch s")
  have d: "device s1 = device s" using epoch_body_device [of T epoch s] b by simp
  show ?case
  proof (cases r)
    case (Inl e)
    then show ?thesis using b d by simp
  next
    case (Inr u)
    then show ?thesis using b d Cons.IH [of s1] by simp
  qed
qed

lemma train_device: "device (snd (train T n seed s)) = device s"
proof -
  let ?s0 = "s\<lparr>torch_state := set_seed seed (torch_state s)\<rparr>"
  obtain r s1 where l: "epochs_loop T (range_py n) ?s0 = (r, s1)"
    by (cases "epochs_loop T (range_py n) ?s0")
  have "device s1 = device s" using epochs_loop_device [of T "range_py n" ?s0] l by simp
  then show ?thesis using l
    by (cases r) (simp_all add: train_def split: option.splits sum.splits)
qed

lemma load_model_device: "device (snd (load_model T fs path ev s)) = device s"
  by (simp add: load_model_def Let_def split: option.splits)

lemma to_device: "device (snd (to T dev s)) \<noteq> None"
  by (simp add: to_def Let_def split: sum.splits)

text \<open>
  C10. The constructor binds no device, \<^verbatim>\<open>to\<close> binds one, and no other operation
  changes the binding. On a trainer on which \<^verbatim>\<open>to\<close> was not called, \<^verbatim>\<open>predict\<close> raises
  \<^verbatim>\<open>AttributeError\<close>, a pass raises it at the first batch it takes, and so does
  \<^verbatim>\<open>train\<close> when it comes to a batch: with at least one epoch and a training data source
  that yields a batch, or no training data source and a validation data source that
  yields one.
\<close>

theorem device_bound_only_by_to:
  "device (init m opt) = None
   \<and> device (snd (to T dev s)) \<noteq> None
   \<and> device (set_loaders new_train new_val s) = device s
   \<and> device (set_tensorboard name dir suffix s) = device s
   \<and> device (snd (train T n seed s)) = device s
   \<and> device (snd (predict T x s)) = device s
   \<and> device (snd (load_model T fs path ev s)) = device s
   \<and> (device s = None \<longrightarrow> fst (predict T x s) = Inl AttributeError)
   \<and> (device s = None \<longrightarrow> batches_loop T step (b # bs) acc s = (Inl AttributeError, s))
   \<and> (device s = None \<and> 0 < n
        \<and> ((\<exists>b bs. train_loader s = Some (b # bs))
            \<or> (train_loader s = None \<and> (\<exists>b bs. val_loader s = Some (b # bs))))
       \<longrightarrow> fst (train T n seed s) = Inl AttributeError)"
proof -
  have "device (init m opt) = None" by (simp add: init_def)
  moreover have "device (set_loaders new_train new_val s) = device s"
    by (simp add: set_loaders_def)
  moreover have "device (set_tensorboard name dir suffix s) = device s"
    by (simp add: set_tensorboard_def)
  moreover have "device (snd (predict T x s)) = device s"
    by (simp add: predict_def Let_def split: option.splits sum.splits)
  moreover have "device s = None \<longrightarrow> fst (predict T x s) = Inl AttributeError"
    by (simp add: predict_def Let_def)
  moreover have "device s = None \<longrightarrow> batches_loop T step (b # bs) acc s = (Inl AttributeError, s)"
    by (simp add: batches_loop_no_device)
  ultimately show ?thesis
    using train_device [of T n seed s] load_model_device [of T fs path ev s]
      train_no_device [of s n T seed] to_device [of T dev s]
    by blast
qed

theorem device_bound_only_by_to_witness:
  "device demo_no_device = None
   \<and> (0::int) < 1
   \<and> train_loader demo_no_device = Some [(1, 1)]
   \<and> fst (predict demo_torch 3 demo_no_device) = Inl AttributeError
   \<and> fst (train demo_torch 1 42 demo_no_device) = Inl AttributeError
   \<and> device (snd (to demo_torch ''cpu'' demo_no_device)) \<noteq> None"
proof -
  have h: "device demo_no_device = None"
    and t: "train_loader demo_no_device = Some [(1, 1)]"
    by (simp_all add: demo_no_device_def demo_simps)
  have n: "(0::int) < 1" by simp
  from t have ex: "\<exists>b bs. train_loader demo_no_device = Some (b # bs)" by blast
  note inst = device_bound_only_by_to [of "\<lparr>params = 1, training = True\<rparr>" 0 demo_torch
      "''cpu''" demo_no_device "Some [(1, 1)]" None "''a''" "''b''" "''c''" 1 42 3
      demo_files "''p''" False]
  from inst h have "fst (predict demo_torch 3 demo_no_device) = Inl AttributeError" by blast
  moreover from inst h n ex
  have "fst (train demo_torch 1 42 demo_no_device) = Inl AttributeError" by blast
  moreover from inst have "device (snd (to demo_torch ''cpu'' demo_no_device)) \<noteq> None"
    by blast
  ultimately show ?thesis using h n t by blast
qed

section \<open>Checkpoints restore the training state\<close>

text \<open>
  C2, as the claim states it, fails: a checkpoint of a trainer bound to the CPU, loaded
  into a freshly constructed trainer of the same architecture, restores the parameters,
  but \<^verbatim>\<open>predict\<close> raises there, since the checkpoint holds no device and loading binds
  none.
\<close>

theorem load_into_fresh_predict_differs:
  "fst (load_model demo_torch (save_model ''ck'' demo_on_cpu demo_files) ''ck'' False demo_fresh)
     = Inr ()
   \<and> fst (predict demo_torch 3 demo_on_cpu) = Inr 3
   \<and> fst (predict demo_torch 3
        (snd (load_model demo_torch (save_model ''ck'' demo_on_cpu demo_files) ''ck'' False
                demo_fresh)))
     = Inl AttributeError"
  by (simp add: demo_trainers demo_simps save_model_def load_model_def predict_def demo_files_def)

text \<open>
  C2, amended. \<^verbatim>\<open>save_model\<close> followed by \<^verbatim>\<open>load_model\<close> of the same path, on a
  trainer whose model and optimizer have the architecture of the saved ones, returns and
  replaces \<open>total_epochs\<close>, \<open>losses\<close>, \<open>val_losses\<close>, the parameters and the optimizer
  state by those of the saving trainer, whatever they were before; when the loading
  trainer has the device binding of the saving one, \<^verbatim>\<open>predict\<close> gives on it what it
  gives on the saving trainer.
\<close>

theorem save_load_round_trip:
  assumes "model_signature T (params (model s)) = model_signature T (params (model t))"
    and "optimizer_signature T (optimizer s) = optimizer_signature T (optimizer t)"
  shows "fst (load_model T (save_model path s fs) path ev t) = Inr ()
     \<and> total_epochs (snd (load_model T (save_model path s fs) path ev t)) = total_epochs s
     \<and> losses (snd (load_model T (save_model path s fs) path ev t)) = losses s
     \<and> val_losses (snd (load_model T (save_model path s fs) path ev t)) = val_losses s
     \<and> params (model (snd (load_model T (save_model path s fs) path ev t))) = params (model s)
     \<and> optimizer (snd (load_model T (save_model path s fs) path ev t)) = optimizer s
     \<and> training (model (snd (load_model T (save_model path s fs) path ev t))) = (\<not> ev)
     \<and> (device t = device s \<longrightarrow>
          fst (predict T x (snd (load_model T (save_model path s fs) path ev t)))
            = fst (predict T x s))"
  using assms
  by (simp add: load_model_def save_model_def predict_def Let_def split: option.splits sum.splits)

lemma demo_trained_state:
  "total_epochs demo_trained = 5" "params (model demo_trained) = 11"
  "device demo_trained = Some ''cpu''" "optimizer demo_trained = 10"
  by (simp_all add: demo_trained_def demo_calls_def demo_simps)

theorem save_load_round_trip_witness:
  "model_signature demo_torch (params (model demo_trained))
     = model_signature demo_torch (params (model demo_on_cpu))
   \<and> optimizer_signature demo_torch (optimizer demo_trained)
     = optimizer_signature demo_torch (optimizer demo_on_cpu)
   \<and> device demo_on_cpu = device demo_trained
   \<and> total_epochs demo_on_cpu = 0
   \<and> total_epochs (snd (load_model demo_torch (save_model ''ck'' demo_trained demo_files)
        ''ck'' False demo_on_cpu)) = 5
   \<and> fst (predict demo_torch 3 demo_trained) = Inr 33
   \<and> fst (predict demo_torch 3 (snd (load_model demo_torch
        (save_model ''ck'' demo_trained demo_files) ''ck'' False demo_on_cpu))) = Inr 33"
proof -
  have h1: "model_signature demo_torch (params (model demo_trained))
     = model_signature demo_torch (params (model demo_on_cpu))"
    and h2: "optimizer_signature demo_torch (optimizer demo_trained)
     = optimizer_signature demo_torch (optimizer demo_on_cpu)"
    by (simp_all add: demo_torch_def)
  have d: "device demo_on_cpu = device demo_trained"
    and z: "total_epochs demo_on_cpu = 0"
    by (simp_all add: demo_trained_state demo_on_cpu_def demo_simps)
  have p: "fst (predict demo_torch 3 demo_trained) = Inr 33"
    by (simp add: predict_def demo_trained_state Let_def demo_torch_def)
  from save_load_round_trip [OF h1 h2, of "''ck''" demo_files False 3] d p demo_trained_state(1)
  have "total_epochs (snd (load_model demo_torch (save_model ''ck'' demo_trained demo_files)
        ''ck'' False demo_on_cpu)) = 5"
    and "fst (predict demo_torch 3 (snd (load_model demo_torch
        (save_model ''ck'' demo_trained demo_files) ''ck'' False demo_on_cpu))) = Inr 33"
    by simp_all
  with h1 h2 d z p show ?thesis by blast
qed

section \<open>Emissions to the writer\<close>

lemma epoch_body_emission:
  assumes "epoch_body T epoch s = (Inr u, s')" and "writer s = Some w"
  shows "\<exists>train_loss val_loss.
           losses s' = losses s @ [train_loss] \<and> val_losses s' = val_losses s @ [val_loss]
           \<and> writer s' = Some (w\<lparr>events := events w @ emissions [epoch] [train_loss] [val_loss]\<rparr>)"
proof (cases rule: epoch_body_cases [of T s epoch])
  case (train_raises e s2)
  then show ?thesis using assms by simp
next
  case (val_raises train_loss s2 e s4)
  then show ?thesis using assms by simp
next
  case (passes_return train_loss s2 val_loss s4)
  note f1 = mini_batch_fields [OF passes_return(1)]
  note f2 = mini_batch_fields [OF passes_return(2)]
  have w4: "writer s4 = Some w" using f1(3) f2(3) assms(2) by simp
  from passes_return(3) assms(1) w4 show ?thesis
    by (auto simp: f1 f2 add_scalars_def split: sum.splits option.splits)
qed

lemma epochs_loop_emissions:
  assumes "epochs_loop T es s = (Inr u, s')" and "writer s = Some w"
  shows "\<exists>ls vs. length ls = length es \<and> length vs = length es
           \<and> losses s' = losses s @ ls \<and> val_losses s' = val_losses s @ vs
           \<and> writer s' = Some (w\<lparr>events := events w @ emissions es ls vs\<rparr>)"
  using assms
proof (induction es arbitrary: s w)
  case Nil
  then show ?case by simp
next
  case (Cons epoch es)
  obtain r s1 where b: "epoch_body T epoch s = (r, s1)" by (cases "epoch_body T epoch s")
  with Cons.prems(1) obtain u1 where r: "r = Inr u1" by (cases r) simp_all
  from b r Cons.prems(1) have rest: "epochs_loop T es s1 = (Inr u, s')" by simp
  from epoch_body_emission [OF b [unfolded r] Cons.prems(2)] obtain l v where
    h: "losses s1 = losses s @ [l]" "val_losses s1 = val_losses s @ [v]"
       "writer s1 = Some (w\<lparr>events := events w @ emissions [epoch] [l] [v]\<rparr>)"
    by blast
  from Cons.IH [OF rest h(3)] obtain ls vs where
    ih: "length ls = length es" "length vs = length es"
        "losses s' = losses s1 @ ls" "val_losses s' = val_losses s1 @ vs"
        "writer s' = Some (w\<lparr>events := events w @ emissions [epoch] [l] [v]\<rparr>
                            \<lparr>events := events (w\<lparr>events := events w @ emissions [epoch] [l] [v]\<rparr>)
                                        @ emissions es ls vs\<rparr>)"
    by blast
  have "length (l # ls) = length (epoch # es)" "length (v # vs) = length (epoch # es)"
    "losses s' = losses s @ (l # ls)" "val_losses s' = val_losses s @ (v # vs)"
    "writer s' = Some (w\<lparr>events := events w @ emissions (epoch # es) (l # ls) (v # vs)\<rparr>)"
    using ih h by simp_all
  then show ?case by blast
qed

text \<open>
  With a writer bound, a \<^verbatim>\<open>train\<close> call that returns has made one \<^verbatim>\<open>add_scalars\<close> call
  per epoch, tagged with the index of the epoch in this call, and a \<^verbatim>\<open>flush\<close> at the end.
\<close>

lemma train_emissions:
  assumes "train T n seed s = (Inr u, s')" and "writer s = Some w"
  shows "\<exists>ls vs. length ls = nat n \<and> length vs = nat n
           \<and> losses s' = losses s @ ls \<and> val_losses s' = val_losses s @ vs
           \<and> writer s' = Some (w\<lparr>events := events w @ emissions (range_py n) ls vs @ [Flush]\<rparr>)"
proof -
  let ?s0 = "s\<lparr>torch_state := set_seed seed (torch_state s)\<rparr>"
  obtain r s1 where l: "epochs_loop T (range_py n) ?s0 = (r, s1)"
    by (cases "epochs_loop T (range_py n) ?s0")
  from assms(1) l obtain u1 where r: "r = Inr u1" by (cases r) (simp_all add: train_def)
  have "writer ?s0 = Some w" using assms(2) by simp
  from epochs_loop_emissions [OF l [unfolded r] this] obtain ls vs where
    h: "length ls = nat n" "length vs = nat n" "losses s1 = losses s @ ls"
       "val_losses s1 = val_losses s @ vs"
       "writer s1 = Some (w\<lparr>events := events w @ emissions (range_py n) ls vs\<rparr>)"
    by (auto simp: length_range_py)
  from assms(1) l r h(5)
  have "s' = s1\<lparr>writer :=
          Some (w\<lparr>events := events w @ emissions (range_py n) ls vs @ [Flush]\<rparr>)\<rparr>"
    by (auto simp: train_def flush_def split: sum.splits option.splits)
  with h show ?thesis by auto
qed

text \<open>
  C6 on the code: a validation pass whose average loss is \<open>0\<close> gives a result that is
  present, \<open>val_losses\<close> records it, but the emission of the epoch holds the training
  loss alone: \<^verbatim>\<open>if val_loss:\<close> takes \<^verbatim>\<open>0.0\<close> for absent.
\<close>

theorem zero_validation_loss_not_emitted:
  "val_losses (snd (train demo_torch 1 42 demo_zero_val)) = [Some 0]
   \<and> writer (snd (train demo_torch 1 42 demo_zero_val))
     = Some \<lparr>log_dir = ''runs/demo_t0'',
             events = [AddScalars ''loss'' [(''loss/train'', Some 1)] 0, Flush]\<rparr>"
  by (simp add: demo_trainers demo_simps)

section \<open>The average of a pass\<close>

lemma batches_loop_sum:
  "(length (step_losses T step bs s) = length bs
      \<longrightarrow> fst (batches_loop T step bs acc s) = Inr (acc + sum_list (step_losses T step bs s)))
   \<and> (length (step_losses T step bs s) \<noteq> length bs
      \<longrightarrow> (\<exists>e. fst (batches_loop T step bs acc s) = Inl e))"
proof (induction bs arbitrary: acc s)
  case Nil
  show ?case by simp
next
  case (Cons b bs)
  obtain x y where b: "b = (x, y)" by (cases b)
  show ?case
  proof (cases "device s")
    case None
    then show ?thesis by (simp add: b)
  next
    case (Some d)
    show ?thesis
    proof (cases "tensor_x_to T d x")
      case (Inl e)
      then show ?thesis by (simp add: b Some)
    next
      case x': (Inr x')
      show ?thesis
      proof (cases "tensor_y_to T d y")
        case (Inl e)
        then show ?thesis by (simp add: b Some x')
      next
        case y': (Inr y')
        obtain r s' where st: "step x' y' s = (r, s')" by (cases "step x' y' s")
        show ?thesis
        proof (cases r)
          case (Inl e)
          then show ?thesis by (simp add: b Some x' y' st)
        next
          case (Inr l)
          then show ?thesis using Cons.IH [of s' "acc + l"]
            by (simp add: b Some x' y' st add.assoc)
        qed
      qed
    qed
  qed
qed

text \<open>
  C5. On a bound data source with at least one batch, when the selected step function
  returns on every batch, taken once and in the order of the source, \<^verbatim>\<open>_mini_batch\<close>
  returns the sum of the losses of the batches divided by the number of batches; when a
  step raises, so does \<^verbatim>\<open>_mini_batch\<close>.
\<close>

theorem mini_batch_mean:
  assumes "(if validation then val_loader s else train_loader s) = Some bs"
    and "bs \<noteq> []"
  shows "(length (step_losses T (if validation then val_step T else train_step T) bs s)
            = length bs
          \<longrightarrow> fst (mini_batch T validation s)
              = Inr (Some (sum_list
                     (step_losses T (if validation then val_step T else train_step T) bs s)
                   / real (length bs))))
       \<and> (length (step_losses T (if validation then val_step T else train_step T) bs s)
            \<noteq> length bs
          \<longrightarrow> (\<exists>e. fst (mini_batch T validation s) = Inl e))"
proof -
  let ?step = "if validation then val_step T else train_step T"
  obtain r s' where l: "batches_loop T ?step bs 0 s = (r, s')"
    by (cases "batches_loop T ?step bs 0 s")
  from batches_loop_sum [of T ?step bs s 0] l
  have a: "length (step_losses T ?step bs s) = length bs
             \<longrightarrow> r = Inr (sum_list (step_losses T ?step bs s))"
    and b: "length (step_losses T ?step bs s) \<noteq> length bs \<longrightarrow> (\<exists>e. r = Inl e)"
    by simp_all
  have m: "mini_batch T validation s =
            (case r of Inl e \<Rightarrow> (Inl e, s')
             | Inr tot \<Rightarrow> (Inr (Some (tot / real (length bs))), s'))"
    using assms l by (cases r) (simp_all add: mini_batch_def Let_def)
  from a b show ?thesis by (auto simp: m)
qed

theorem mini_batch_mean_witness:
  "train_loader demo_four = Some [(1, 0), (1, 0), (1, 0), (1, 0)]
   \<and> step_losses demo_torch (train_step demo_torch) [(1, 0), (1, 0), (1, 0), (1, 0)] demo_four
       = [1, 2, 3, 4]
   \<and> fst (mini_batch demo_torch False demo_four) = Inr (Some (5 / 2))"
proof -
  have h: "(if False then val_loader demo_four else train_loader demo_four)
            = Some [(1, 0), (1, 0), (1, 0), (1, 0)]"
    by (simp add: demo_trainers demo_simps)
  have n: "[(1, 0), (1, 0), (1, 0), (1, 0)] \<noteq> ([] :: (int \<times> int) list)" by simp
  have sl: "step_losses demo_torch (train_step demo_torch) [(1, 0), (1, 0), (1, 0), (1, 0)]
              demo_four = [1, 2, 3, 4]"
    by (simp add: demo_trainers demo_simps)
  from mini_batch_mean [OF h n, of demo_torch] sl h show ?thesis by simp
qed

section \<open>Training without validation\<close>

lemma train_step_learner:
  assumes "learner s = learner t"
  shows "fst (train_step T x y s) = fst (train_step T x y t)
         \<and> learner (snd (train_step T x y s)) = learner (snd (train_step T x y t))"
  using assms
  by (auto simp: train_step_def learner_def Let_def split: sum.splits prod.splits)

lemma val_step_learner:
  assumes "learner s = learner t"
  shows "fst (val_step T x y s) = fst (val_step T x y t)
         \<and> learner (snd (val_step T x y s)) = learner (snd (val_step T x y t))"
  using assms
  by (auto simp: val_step_def learner_def Let_def split: sum.splits prod.splits)

lemma batches_loop_learner:
  assumes step: "\<And>x y s t. learner s = learner t \<Longrightarrow>
      fst (step x y s) = fst (step x y t) \<and> learner (snd (step x y s)) = learner (snd (step x y t))"
    and "learner s = learner t"
  shows "fst (batches_loop T step bs acc s) = fst (batches_loop T step bs acc t)
         \<and> learner (snd (batches_loop T step bs acc s))
           = learner (snd (batches_loop T step bs acc t))"
  using assms(2)
proof (induction bs arbitrary: acc s t)
  case Nil
  then show ?case by simp
next
  case (Cons b bs)
  obtain x y where b: "b = (x, y)" by (cases b)
  from Cons.prems have dev: "device t = device s" by (simp add: learner_def)
  show ?case
  proof (cases "device s")
    case None
    then show ?thesis using dev Cons.prems by (simp add: b)
  next
    case (Some d)
    show ?thesis
    proof (cases "tensor_x_to T d x")
      case (Inl e)
      then show ?thesis using dev Cons.prems by (simp add: b Some)
    next
      case x': (Inr x')
      show ?thesis
      proof (cases "tensor_y_to T d y")
        case (Inl e)
        then show ?thesis using dev Cons.prems by (simp add: b Some x')
      next
        case y': (Inr y')
        obtain r s' where st: "step x' y' s = (r, s')" by (cases "step x' y' s")
        obtain r2 t' where st2: "step x' y' t = (r2, t')" by (cases "step x' y' t")
        from step [OF Cons.prems, of x' y'] st st2
        have eq: "r2 = r" "learner s' = learner t'" by simp_all
        show ?thesis
        proof (cases r)
          case (Inl e)
          then show ?thesis using dev eq by (simp add: b Some x' y' st st2)
        next
          case (Inr l)
          then show ?thesis using dev eq Cons.IH [OF eq(2), of "acc + l"]
            by (simp add: b Some x' y' st st2)
        qed
      qed
    qed
  qed
qed

lemma mini_batch_learner:
  assumes "learner s = learner t"
  shows "fst (mini_batch T v s) = fst (mini_batch T v t)
         \<and> learner (snd (mini_batch T v s)) = learner (snd (mini_batch T v t))"
proof -
  let ?step = "if v then val_step T else train_step T"
  from assms have ld: "train_loader t = train_loader s" "val_loader t = val_loader s"
    by (simp_all add: learner_def)
  show ?thesis
  proof (cases "if v then val_loader s else train_loader s")
    case None
    then show ?thesis using ld assms by (simp add: mini_batch_def split: if_splits)
  next
    case (Some bs)
    then have Some': "(if v then val_loader t else train_loader t) = Some bs"
      using ld by (simp split: if_splits)
    have st: "fst (?step x y s) = fst (?step x y t)
        \<and> learner (snd (?step x y s)) = learner (snd (?step x y t))"
      if "learner s = learner t" for x y s t
      using train_step_learner [OF that, of T x y] val_step_learner [OF that, of T x y]
      by simp
    obtain r s' where l1: "batches_loop T ?step bs 0 s = (r, s')"
      by (cases "batches_loop T ?step bs 0 s")
    obtain r2 t' where l2: "batches_loop T ?step bs 0 t = (r2, t')"
      by (cases "batches_loop T ?step bs 0 t")
    from batches_loop_learner [of ?step s t T bs 0, OF st assms] l1 l2
    have eq: "r2 = r" "learner s' = learner t'" by simp_all
    have m1: "mini_batch T v s =
               (case r of Inl e \<Rightarrow> (Inl e, s')
                | Inr tot \<Rightarrow> if length bs = 0 then (Inl ZeroDivisionError, s')
                              else (Inr (Some (tot / real (length bs))), s'))"
      using Some l1 by (cases r) (simp_all add: mini_batch_def Let_def)
    have m2: "mini_batch T v t =
               (case r of Inl e \<Rightarrow> (Inl e, t')
                | Inr tot \<Rightarrow> if length bs = 0 then (Inl ZeroDivisionError, t')
                              else (Inr (Some (tot / real (length bs))), t'))"
      using Some' l2 eq(1) by (cases r) (simp_all add: mini_batch_def Let_def)
    show ?thesis using eq(2) by (cases r) (simp_all add: m1 m2)
  qed
qed

lemma epochs_loop_no_validation:
  assumes "val_loader s = None" and "epochs_loop T es s = (Inr u, s')"
    and "learner t = learner s"
  shows "val_losses s' = val_losses s @ replicate (length es) None
         \<and> learner s' = learner (training_passes T (length es) t)"
  using assms
proof (induction es arbitrary: s t)
  case Nil
  then show ?case by simp
next
  case (Cons epoch es)
  let ?s1 = "s\<lparr>total_epochs := total_epochs s + 1\<rparr>"
  show ?case
  proof (cases rule: epoch_body_cases [of T s epoch])
    case (train_raises e s2)
    then show ?thesis using Cons.prems(2) by simp
  next
    case (val_raises train_loss s2 e s4)
    then show ?thesis using Cons.prems(2) by simp
  next
    case (passes_return train_loss s2 val_loss s4)
    let ?s3 = "s2\<lparr>losses := losses s2 @ [train_loss]\<rparr>"
    obtain sb where sb: "epoch_body T epoch s = (Inr (), sb)"
      using Cons.prems(2) by (cases "epoch_body T epoch s") (auto split: sum.splits)
    have v3: "val_loader ?s3 = None"
      using mini_batch_fields(2) [OF passes_return(1)] Cons.prems(1) by simp
    from mini_batch_unbound [of True ?s3 T] v3 passes_return(2)
    have vl: "val_loss = None" "s4 = ?s3" by simp_all
    have sbv: "val_losses sb = val_losses s @ [None]" and sbl: "learner sb = learner s2"
      and sbn: "val_loader sb = None"
      using passes_return(3) sb vl v3 mini_batch_fields(5) [OF passes_return(1)]
      by (auto simp: learner_def split: option.splits sum.splits)
    have "learner ?s1 = learner t" using Cons.prems(3) by (simp add: learner_def)
    from mini_batch_learner [OF this, of T False] passes_return(1)
    have l2: "learner s2 = learner (snd (mini_batch T False t))" by simp
    from Cons.prems(2) sb have rest: "epochs_loop T es sb = (Inr u, s')" by simp
    from Cons.IH [OF sbn rest, of "snd (mini_batch T False t)"] sbl l2 sbv
    show ?thesis by (simp add: replicate_append_same)
  qed
qed

text \<open>
  C4. With no validation data source the validation pass returns \<^verbatim>\<open>None\<close>, raises
  nothing and changes nothing; a \<^verbatim>\<open>train\<close> call of \<open>n\<close> epochs that returns has added \<open>n\<close>
  entries \<^verbatim>\<open>None\<close> to \<open>val_losses\<close>, and has left the model and the optimizer as \<open>n\<close>
  training passes leave them.
\<close>

theorem no_validation_mode:
  assumes "val_loader s = None"
  shows "mini_batch T True s = (Inr None, s)
     \<and> (fst (train T n seed s) = Inr ()
        \<longrightarrow> val_losses (snd (train T n seed s)) = val_losses s @ replicate (nat n) None
          \<and> model (snd (train T n seed s)) = model (training_passes T (nat n) s)
          \<and> optimizer (snd (train T n seed s)) = optimizer (training_passes T (nat n) s))"
proof -
  let ?s0 = "s\<lparr>torch_state := set_seed seed (torch_state s)\<rparr>"
  have a: "mini_batch T True s = (Inr None, s)"
    using assms by (simp add: mini_batch_unbound)
  have b: "val_losses (snd (train T n seed s)) = val_losses s @ replicate (nat n) None
          \<and> model (snd (train T n seed s)) = model (training_passes T (nat n) s)
          \<and> optimizer (snd (train T n seed s)) = optimizer (training_passes T (nat n) s)"
    if ok: "fst (train T n seed s) = Inr ()"
  proof -
    obtain r s1 where l: "epochs_loop T (range_py n) ?s0 = (r, s1)"
      by (cases "epochs_loop T (range_py n) ?s0")
    from ok l obtain u where r: "r = Inr u" by (cases r) (simp_all add: train_def)
    have "val_loader ?s0 = None" "learner s = learner ?s0"
      using assms by (simp_all add: learner_def)
    from epochs_loop_no_validation [OF this(1) l [unfolded r] this(2)]
    have e: "val_losses s1 = val_losses s @ replicate (nat n) None"
      "learner s1 = learner (training_passes T (nat n) s)"
      by (simp_all add: length_range_py)
    have "snd (train T n seed s) = s1
          \<or> (\<exists>w. snd (train T n seed s) = s1\<lparr>writer := Some w\<rparr>)"
      using l r by (auto simp: train_def split: option.splits sum.splits)
    with e show ?thesis by (auto simp: learner_def)
  qed
  from a b show ?thesis by blast
qed

theorem no_validation_mode_witness:
  "val_loader demo_four = None
   \<and> mini_batch demo_torch True demo_four = (Inr None, demo_four)
   \<and> fst (train demo_torch 2 42 demo_four) = Inr ()
   \<and> val_losses (snd (train demo_torch 2 42 demo_four)) = [None, None]
   \<and> params (model demo_four) = 1
   \<and> params (model (snd (train demo_torch 2 42 demo_four))) = 9"
proof -
  have h: "val_loader demo_four = None" and v: "val_losses demo_four = []"
    and p: "params (model demo_four) = 1"
    by (simp_all add: demo_trainers demo_simps)
  have ok: "fst (train demo_torch 2 42 demo_four) = Inr ()"
    and p': "params (model (snd (train demo_torch 2 42 demo_four))) = 9"
    by (simp_all add: demo_trainers demo_simps)
  have r: "replicate (nat 2) (None :: real option) = [None, None]"
    by (simp add: numeral_2_eq_2)
  from no_validation_mode [OF h, of demo_torch 2 42] ok v r
  have "mini_batch demo_torch True demo_four = (Inr None, demo_four)"
    and "val_losses (snd (train demo_torch 2 42 demo_four)) = [None, None]"
    by simp_all
  with h ok p p' show ?thesis by blast
qed

end
